theory Spec2Isabelle
  imports Main "HOL-Library.Sublist"
begin

section \<open>Python values\<close>

text \<open>
  The parsed specification (the result of \<^verbatim>\<open>yaml.safe_load\<close>) is a tree of Python
  values: \<^verbatim>\<open>None\<close>, booleans, integers, strings, lists and dicts. A dict keeps its
  insertion order, so it is an association list; its keys are strings, as in every
  JSON-compatible document. Floating-point numbers are left out. A string is a
  \<^typ>\<open>string\<close>, each character a code point below 256; the case mappings below are
  those of Python on ASCII text.
\<close>

datatype pyval =
    PNone
  | PBool bool
  | PInt int
  | PStr string
  | PList "pyval list"
  | PDict "(string \<times> pyval) list"

text \<open>The exceptions the server can raise; the two it builds itself carry their message.\<close>

datatype pyerr =
    ValueError string
  | Exception string
  | TypeError
  | AttributeError
  | KeyError

subsection \<open>Strings\<close>

definition lower_char :: "char \<Rightarrow> char" where
  "lower_char c =
     (let n = (of_char c :: nat) in if 65 \<le> n \<and> n \<le> 90 then char_of (n + 32) else c)"

definition upper_char :: "char \<Rightarrow> char" where
  "upper_char c =
     (let n = (of_char c :: nat) in if 97 \<le> n \<and> n \<le> 122 then char_of (n - 32) else c)"

definition lower :: "string \<Rightarrow> string" where
  "lower s = map lower_char s"

definition upper :: "string \<Rightarrow> string" where
  "upper s = map upper_char s"

text \<open>\<^verbatim>\<open>sep.join(xs)\<close>\<close>

fun join :: "string \<Rightarrow> string list \<Rightarrow> string" where
  "join sep [] = []"
| "join sep [x] = x"
| "join sep (x # y # ys) = x @ sep @ join sep (y # ys)"

text \<open>Decimal digits of a natural number and of an integer, as \<^verbatim>\<open>str\<close> prints them.\<close>

definition digit_char :: "nat \<Rightarrow> char" where
  "digit_char d = char_of (48 + d)"

function str_nat :: "nat \<Rightarrow> string" where
  "str_nat n = (if n < 10 then [digit_char n] else str_nat (n div 10) @ [digit_char (n mod 10)])"
  by pat_completeness auto
termination
  by (relation "measure id") auto

declare str_nat.simps [simp del]

definition str_int :: "int \<Rightarrow> string" where
  "str_int i = (if i < 0 then CHR ''-'' # str_nat (nat (- i)) else str_nat (nat i))"

text \<open>
  \<^verbatim>\<open>repr\<close> of a string: single quotes, unless the string holds a single quote and no
  double quote; the quote in use and the backslash are escaped, as are tab, newline,
  carriage return and the other characters that are not printable (the control
  characters, the no-break space and the soft hyphen).
\<close>

definition hex_digit :: "nat \<Rightarrow> char" where
  "hex_digit d = (if d < 10 then char_of (48 + d) else char_of (87 + d))"

definition repr_char :: "char \<Rightarrow> char \<Rightarrow> string" where
  "repr_char q c =
     (if c = q \<or> c = CHR 0x5C then [CHR 0x5C, c]
      else if c = CHR 0x09 then [CHR 0x5C, CHR ''t'']
      else if c = CHR 0x0A then [CHR 0x5C, CHR ''n'']
      else if c = CHR 0x0D then [CHR 0x5C, CHR ''r'']
      else if (of_char c :: nat) < 32 \<or> (127 \<le> (of_char c :: nat) \<and> (of_char c :: nat) \<le> 160)
              \<or> (of_char c :: nat) = 173
        then [CHR 0x5C, CHR ''x'', hex_digit (of_char c div 16), hex_digit (of_char c mod 16)]
      else [c])"

definition repr_str :: "string \<Rightarrow> string" where
  "repr_str s =
     (let q = (if CHR 0x27 \<in> set s \<and> CHR 0x22 \<notin> set s then CHR 0x22 else CHR 0x27)
      in [q] @ concat (map (repr_char q) s) @ [q])"

subsection \<open>\<^verbatim>\<open>repr\<close> and \<^verbatim>\<open>str\<close> of a value\<close>

fun repr :: "pyval \<Rightarrow> string"
  and repr_items :: "pyval list \<Rightarrow> string list"
  and repr_pairs :: "(string \<times> pyval) list \<Rightarrow> string list" where
  "repr PNone = ''None''"
| "repr (PBool b) = (if b then ''True'' else ''False'')"
| "repr (PInt i) = str_int i"
| "repr (PStr s) = repr_str s"
| "repr (PList xs) = ''['' @ join '', '' (repr_items xs) @ '']''"
| "repr (PDict kvs) = ''{'' @ join '', '' (repr_pairs kvs) @ ''}''"
| "repr_items [] = []"
| "repr_items (x # xs) = repr x # repr_items xs"
| "repr_pairs [] = []"
| "repr_pairs ((k, v) # kvs) = (repr_str k @ '': '' @ repr v) # repr_pairs kvs"

definition str :: "pyval \<Rightarrow> string" where
  "str v = (case v of PStr s \<Rightarrow> s | _ \<Rightarrow> repr v)"

text \<open>\<^verbatim>\<open>isinstance(v, dict)\<close> and \<^verbatim>\<open>isinstance(v, (dict, list))\<close>\<close>

fun is_dict :: "pyval \<Rightarrow> bool" where
  "is_dict (PDict _) = True"
| "is_dict _ = False"

fun is_dict_or_list :: "pyval \<Rightarrow> bool" where
  "is_dict_or_list (PDict _) = True"
| "is_dict_or_list (PList _) = True"
| "is_dict_or_list _ = False"

text \<open>\<^verbatim>\<open>type(v).__name__\<close>\<close>

fun type_name :: "pyval \<Rightarrow> string" where
  "type_name PNone = ''NoneType''"
| "type_name (PBool _) = ''bool''"
| "type_name (PInt _) = ''int''"
| "type_name (PStr _) = ''str''"
| "type_name (PList _) = ''list''"
| "type_name (PDict _) = ''dict''"

section \<open>Keyword search\<close>

text \<open>
  \<^verbatim>\<open>search_recursive(obj, path)\<close> of \<^verbatim>\<open>search_toast_spec\<close>, with the lowercased search
  term as a parameter (the source closes over it). The two loops are \<open>search_dict\<close>
  and \<open>search_list\<close>; the latter carries the index of \<^verbatim>\<open>enumerate\<close>. Each hit is the
  dict the source appends. \<^verbatim>\<open>a in b\<close> on strings is \<^const>\<open>sublist\<close>.
\<close>

definition shown :: "pyval \<Rightarrow> pyval" where
  "shown v = (if \<not> is_dict_or_list v then v else PStr (''<'' @ type_name v @ ''>''))"

definition dict_hit :: "string \<Rightarrow> string \<Rightarrow> pyval \<Rightarrow> pyval" where
  "dict_hit current_path key v =
     PDict [(''path'', PStr current_path), (''key'', PStr key), (''value'', shown v)]"

definition list_hit :: "string \<Rightarrow> pyval \<Rightarrow> pyval" where
  "list_hit current_path item = PDict [(''path'', PStr current_path), (''value'', shown item)]"

function search_recursive :: "string \<Rightarrow> pyval \<Rightarrow> string \<Rightarrow> pyval list"
  and search_dict :: "string \<Rightarrow> (string \<times> pyval) list \<Rightarrow> string \<Rightarrow> pyval list"
  and search_list :: "string \<Rightarrow> pyval list \<Rightarrow> nat \<Rightarrow> string \<Rightarrow> pyval list" where
  "search_recursive search_term (PDict kvs) path = search_dict search_term kvs path"
| "search_recursive search_term (PList xs) path = search_list search_term xs 0 path"
| "search_recursive search_term PNone path = []"
| "search_recursive search_term (PBool b) path = []"
| "search_recursive search_term (PInt i) path = []"
| "search_recursive search_term (PStr s) path = []"
| "search_dict search_term [] path = []"
| "search_dict search_term ((key, v) # kvs) path =
     (let current_path = (if path \<noteq> [] then path @ ''.'' @ key else key)
      in (if sublist search_term (lower (str (PStr key))) \<or> sublist search_term (lower (str v))
          then [dict_hit current_path key v] else [])
         @ (if is_dict_or_list v then search_recursive search_term v current_path else [])
         @ search_dict search_term kvs path)"
| "search_list search_term [] i path = []"
| "search_list search_term (item # xs) i path =
     (let current_path = path @ ''['' @ str_nat i @ '']''
      in (if sublist search_term (lower (str item)) then [list_hit current_path item] else [])
         @ (if is_dict_or_list item then search_recursive search_term item current_path else [])
         @ search_list search_term xs (Suc i) path)"
  by pat_completeness auto
termination
  by (relation "measure (\<lambda>x. case x of
        Inl (_, v, _) \<Rightarrow> size v
      | Inr (Inl (_, kvs, _)) \<Rightarrow> size_list (size_prod (\<lambda>_. 0) size) kvs
      | Inr (Inr (_, xs, _, _)) \<Rightarrow> size_list size xs)") auto

text \<open>The search as the tool runs it: the term lowercased, from the root, with the empty path.\<close>

definition run_search :: "string \<Rightarrow> pyval \<Rightarrow> pyval list" where
  "run_search search_term spec_data = search_recursive (lower search_term) spec_data []"

section \<open>JSON output\<close>

text \<open>
  \<^verbatim>\<open>json.dumps(v, indent=2)\<close>: the standard encoder with its defaults. A string is
  quoted, with the quote, the backslash and every character outside the printable ASCII
  range escaped. A non-empty list or dict puts each item on a line of its own, indented
  by two spaces per nesting level; an empty one is \<^verbatim>\<open>[]\<close> or \<^verbatim>\<open>{}\<close>.
\<close>

definition json_escape_char :: "char \<Rightarrow> string" where
  "json_escape_char c =
     (if c = CHR 0x22 then [CHR 0x5C, CHR 0x22]
      else if c = CHR 0x5C then [CHR 0x5C, CHR 0x5C]
      else if c = CHR 0x0A then [CHR 0x5C, CHR ''n'']
      else if c = CHR 0x0D then [CHR 0x5C, CHR ''r'']
      else if c = CHR 0x09 then [CHR 0x5C, CHR ''t'']
      else if c = CHR 0x08 then [CHR 0x5C, CHR ''b'']
      else if c = CHR 0x0C then [CHR 0x5C, CHR ''f'']
      else if (of_char c :: nat) < 32 \<or> 126 < (of_char c :: nat)
        then [CHR 0x5C, CHR ''u'', CHR ''0'', CHR ''0'',
              hex_digit (of_char c div 16), hex_digit (of_char c mod 16)]
      else [c])"

definition json_str :: "string \<Rightarrow> string" where
  "json_str s = [CHR 0x22] @ concat (map json_escape_char s) @ [CHR 0x22]"

definition newline_indent :: "nat \<Rightarrow> string" where
  "newline_indent level = CHR 0x0A # replicate (2 * level) CHR '' ''"

fun json_dumps_at :: "nat \<Rightarrow> pyval \<Rightarrow> string"
  and json_items :: "nat \<Rightarrow> pyval list \<Rightarrow> string list"
  and json_pairs :: "nat \<Rightarrow> (string \<times> pyval) list \<Rightarrow> string list" where
  "json_dumps_at level PNone = ''null''"
| "json_dumps_at level (PBool b) = (if b then ''true'' else ''false'')"
| "json_dumps_at level (PInt i) = str_int i"
| "json_dumps_at level (PStr s) = json_str s"
| "json_dumps_at level (PList xs) =
     (if xs = [] then ''[]''
      else ''['' @ newline_indent (Suc level)
           @ join ('','' @ newline_indent (Suc level)) (json_items (Suc level) xs)
           @ newline_indent level @ '']'')"
| "json_dumps_at level (PDict kvs) =
     (if kvs = [] then ''{}''
      else ''{'' @ newline_indent (Suc level)
           @ join ('','' @ newline_indent (Suc level)) (json_pairs (Suc level) kvs)
           @ newline_indent level @ ''}'')"
| "json_items level [] = []"
| "json_items level (x # xs) = json_dumps_at level x # json_items level xs"
| "json_pairs level [] = []"
| "json_pairs level ((k, v) # kvs) =
     (json_str k @ '': '' @ json_dumps_at level v) # json_pairs level kvs"

definition json_dumps :: "pyval \<Rightarrow> string" where
  "json_dumps v = json_dumps_at 0 v"

section \<open>Reading JSON\<close>



















section \<open>The catalog, the cache and the fetch\<close>

definition TOAST_SPECS :: "(string \<times> string) list" where
  "TOAST_SPECS =
    [(''reporting'', ''https://doc.toasttab.com/toast-api-specifications/toast-reporting-api.yaml''),
     (''authentication'', ''https://doc.toasttab.com/toast-api-specifications/toast-authentication-api.yaml''),
     (''cashmgmt'', ''https://doc.toasttab.com/toast-api-specifications/toast-cashmgmt-api.yaml''),
     (''config'', ''https://doc.toasttab.com/toast-api-specifications/toast-config-api.yaml''),
     (''ccpartner'', ''https://doc.toasttab.com/toast-api-specifications/toast-ccpartner-api.yaml''),
     (''kitchen'', ''https://doc.toasttab.com/openapi/kitchen/overview/''),
     (''labor'', ''https://doc.toasttab.com/openapi/labor/overview/''),
     (''menus'', ''https://doc.toasttab.com/openapi/menus/overview/''),
     (''menus-v3'', ''https://doc.toasttab.com/toast-api-specifications/toast-menus-api-v3.yaml''),
     (''ordermgmt-config'', ''https://doc.toasttab.com/toast-api-specifications/toast-ordermgmt-config-api-docs.yaml''),
     (''orders'', ''https://doc.toasttab.com/toast-api-specifications/toast-orders-api.yaml''),
     (''packaging'', ''https://doc.toasttab.com/openapi/packaging/overview/''),
     (''partners'', ''https://doc.toasttab.com/openapi/partners/overview/''),
     (''rx-availability'', ''https://doc.toasttab.com/openapi/rx.availability.service/overview/''),
     (''restaurants'', ''https://doc.toasttab.com/toast-api-specifications/toast-restaurants-api.yaml''),
     (''stock'', ''https://doc.toasttab.com/toast-api-specifications/toast-stock-api.yaml''),
     (''giftcard-integration'', ''https://doc.toasttab.com/toast-api-specifications/toast-integrations-giftcard-api.yaml''),
     (''loyalty-integration'', ''https://doc.toasttab.com/toast-api-specifications/toast-integrations-loyalty-api.yaml''),
     (''tender-integration'', ''https://doc.toasttab.com/toast-api-specifications/toast-tender-api.yaml'')]"

text \<open>\<^verbatim>\<open>TOAST_SPECS.keys()\<close>\<close>

definition catalog_keys :: "string list" where
  "catalog_keys = map fst TOAST_SPECS"

text \<open>
  The state of the process is the module-level cache, together with the trace of what
  the process has done to the outside: the URLs it has requested and the texts it has
  handed to the YAML parser, in order.
\<close>

datatype effect = HttpGet string | YamlLoad string

record server_state =
  specs_cache :: "string \<rightharpoonup> pyval"
  effects :: "effect list"

definition initial_state :: server_state where
  "initial_state = \<lparr>specs_cache = Map.empty, effects = []\<rparr>"

text \<open>
  The world outside is a parameter of the model. \<open>requests_get\<close> answers a request
  for a URL, given everything done so far (so the same URL may be answered differently
  at different times): \<open>Inl reason\<close> when \<^verbatim>\<open>requests.get\<close> or
  \<^verbatim>\<open>raise_for_status\<close> raises a \<^verbatim>\<open>RequestException\<close>, \<open>Inr text\<close> for the body of
  a successful response. \<open>yaml_safe_load\<close> is the parser: \<open>Inl reason\<close> for a
  \<^verbatim>\<open>YAMLError\<close>, \<open>Inr tree\<close> otherwise.
\<close>

type_synonym network = "effect list \<Rightarrow> string \<Rightarrow> string + string"
type_synonym parser = "string \<Rightarrow> string + pyval"

text \<open>
  A name that may be \<^verbatim>\<open>None\<close> (\<^verbatim>\<open>arguments.get\<close> of a missing argument), as an
  f-string prints it. \<^verbatim>\<open>None\<close> is a key neither of the cache nor of the catalog.
\<close>

definition fmt :: "string option \<Rightarrow> string" where
  "fmt x = (case x of None \<Rightarrow> ''None'' | Some s \<Rightarrow> s)"

definition unknown_spec :: "string option \<Rightarrow> pyerr" where
  "unknown_spec spec_name =
     ValueError (''Unknown spec: '' @ fmt spec_name @ ''. Available specs: ''
                 @ join '', '' catalog_keys)"

definition fetch_yaml_spec ::
  "network \<Rightarrow> parser \<Rightarrow> server_state \<Rightarrow> string option \<Rightarrow> (pyerr + pyval) \<times> server_state" where
  "fetch_yaml_spec requests_get yaml_safe_load st spec_name =
     (case spec_name of
        None \<Rightarrow> (Inl (unknown_spec spec_name), st)
      | Some n \<Rightarrow>
         (case specs_cache st n of
            Some cached \<Rightarrow> (Inr cached, st)
          | None \<Rightarrow>
             (case map_of TOAST_SPECS n of
                None \<Rightarrow> (Inl (unknown_spec spec_name), st)
              | Some url \<Rightarrow>
                 (case requests_get (effects st) url of
                    Inl e \<Rightarrow>
                      (Inl (Exception (''Failed to fetch spec from '' @ url @ '': '' @ e)),
                       st\<lparr>effects := effects st @ [HttpGet url]\<rparr>)
                  | Inr text \<Rightarrow>
                     (case yaml_safe_load text of
                        Inl e \<Rightarrow>
                          (Inl (Exception (''Failed to parse YAML from '' @ url @ '': '' @ e)),
                           st\<lparr>effects := effects st @ [HttpGet url, YamlLoad text]\<rparr>)
                      | Inr spec_data \<Rightarrow>
                          (Inr spec_data,
                           st\<lparr>specs_cache := (specs_cache st)(n \<mapsto> spec_data),
                              effects := effects st @ [HttpGet url, YamlLoad text]\<rparr>))))))"

section \<open>Endpoint listing and lookup\<close>

text \<open>
  The operations of Python the two endpoint tools apply to the parsed document, with the
  exceptions they raise on a value of the wrong type: \<^verbatim>\<open>x in c\<close> (a key test on a
  dict, an element test on a list, a substring test on a string), \<^verbatim>\<open>c[x]\<close> and
  \<^verbatim>\<open>c.items()\<close>. The left operand is a string or \<^verbatim>\<open>None\<close>.
\<close>

fun py_in :: "string option \<Rightarrow> pyval \<Rightarrow> pyerr + bool" where
  "py_in x (PDict kvs) = Inr (case x of None \<Rightarrow> False | Some k \<Rightarrow> k \<in> set (map fst kvs))"
| "py_in x (PList xs) = Inr ((case x of None \<Rightarrow> PNone | Some k \<Rightarrow> PStr k) \<in> set xs)"
| "py_in x (PStr s) = (case x of None \<Rightarrow> Inl TypeError | Some k \<Rightarrow> Inr (sublist k s))"
| "py_in x PNone = Inl TypeError"
| "py_in x (PBool b) = Inl TypeError"
| "py_in x (PInt i) = Inl TypeError"

fun py_getitem :: "pyval \<Rightarrow> string option \<Rightarrow> pyerr + pyval" where
  "py_getitem (PDict kvs) x =
     (case Option.bind x (map_of kvs) of None \<Rightarrow> Inl KeyError | Some v \<Rightarrow> Inr v)"
| "py_getitem _ x = Inl TypeError"

fun py_items :: "pyval \<Rightarrow> pyerr + (string \<times> pyval) list" where
  "py_items (PDict kvs) = Inr kvs"
| "py_items _ = Inl AttributeError"

text \<open>\<^verbatim>\<open>d.get(k, default)\<close>\<close>

definition dict_get :: "(string \<times> pyval) list \<Rightarrow> string \<Rightarrow> pyval \<Rightarrow> pyval" where
  "dict_get d k dflt = (case map_of d k of None \<Rightarrow> dflt | Some v \<Rightarrow> v)"

text \<open>
  The two nested loops of \<^verbatim>\<open>get_toast_endpoints\<close>: \<open>methods_loop\<close> runs over the
  items of one path, \<open>paths_loop\<close> over the paths; \<^verbatim>\<open>methods.items()\<close> raises when
  the value of a path is not a dict, which ends the call.
\<close>

fun methods_loop :: "string \<Rightarrow> (string \<times> pyval) list \<Rightarrow> pyval list" where
  "methods_loop path [] = []"
| "methods_loop path ((method, details) # ms) =
     (case details of
        PDict d \<Rightarrow>
          [PDict [(''path'', PStr path),
                  (''method'', PStr (upper method)),
                  (''summary'', dict_get d ''summary'' (PStr [])),
                  (''description'', dict_get d ''description'' (PStr []))]]
      | _ \<Rightarrow> [])
     @ methods_loop path ms"

fun paths_loop :: "(string \<times> pyval) list \<Rightarrow> pyerr + pyval list" where
  "paths_loop [] = Inr []"
| "paths_loop ((path, methods) # ps) =
     (case py_items methods of
        Inl e \<Rightarrow> Inl e
      | Inr ms \<Rightarrow>
         (case paths_loop ps of
            Inl e \<Rightarrow> Inl e
          | Inr endpoints \<Rightarrow> Inr (methods_loop path ms @ endpoints)))"

definition get_toast_endpoints :: "pyval \<Rightarrow> pyerr + pyval list" where
  "get_toast_endpoints spec_data =
     (case py_in (Some ''paths'') spec_data of
        Inl e \<Rightarrow> Inl e
      | Inr False \<Rightarrow> Inr []
      | Inr True \<Rightarrow>
         (case py_getitem spec_data (Some ''paths'') of
            Inl e \<Rightarrow> Inl e
          | Inr paths \<Rightarrow>
             (case py_items paths of
                Inl e \<Rightarrow> Inl e
              | Inr ps \<Rightarrow> paths_loop ps)))"

text \<open>
  The endpoint listing as the specification words it: the \<open>Endpoint\<close> view of one
  method entry (path, method in upper case, summary and description, each the empty
  string when absent), and, for one path, the views of the entries whose value is a
  mapping, in document order.
\<close>

definition endpoint_view :: "string \<Rightarrow> string \<Rightarrow> (string \<times> pyval) list \<Rightarrow> pyval" where
  "endpoint_view path method d =
     PDict [(''path'', PStr path),
            (''method'', PStr (upper method)),
            (''summary'', case map_of d ''summary'' of None \<Rightarrow> PStr [] | Some v \<Rightarrow> v),
            (''description'', case map_of d ''description'' of None \<Rightarrow> PStr [] | Some v \<Rightarrow> v)]"

definition listed_methods :: "string \<Rightarrow> pyval \<Rightarrow> pyval list" where
  "listed_methods path methods =
     (case methods of
        PDict ms \<Rightarrow>
          concat (map (\<lambda>(method, details).
                    case details of PDict d \<Rightarrow> [endpoint_view path method d] | _ \<Rightarrow> []) ms)
      | _ \<Rightarrow> [])"

definition not_found :: "string option \<Rightarrow> string option \<Rightarrow> pyerr" where
  "not_found endpoint_path spec_name =
     ValueError (''Endpoint '' @ fmt endpoint_path @ '' not found in '' @ fmt spec_name
                 @ '' specification'')"

definition get_toast_endpoint_details ::
  "string option \<Rightarrow> string option \<Rightarrow> pyval \<Rightarrow> pyerr + pyval" where
  "get_toast_endpoint_details spec_name endpoint_path spec_data =
     (case py_in (Some ''paths'') spec_data of
        Inl e \<Rightarrow> Inl e
      | Inr False \<Rightarrow> Inl (not_found endpoint_path spec_name)
      | Inr True \<Rightarrow>
         (case py_getitem spec_data (Some ''paths'') of
            Inl e \<Rightarrow> Inl e
          | Inr paths \<Rightarrow>
             (case py_in endpoint_path paths of
                Inl e \<Rightarrow> Inl e
              | Inr False \<Rightarrow> Inl (not_found endpoint_path spec_name)
              | Inr True \<Rightarrow> py_getitem paths endpoint_path)))"

section \<open>The tools\<close>

text \<open>
  The text of \<^verbatim>\<open>search_toast_spec\<close>: the first fifty hits as JSON, then the note
  when there are more.
\<close>

definition search_text :: "pyval list \<Rightarrow> string" where
  "search_text search_results =
     json_dumps (PList (take 50 search_results))
     @ (if length search_results > 50
        then [CHR 0x0A, CHR 0x0A] @ ''... and '' @ str_nat (length search_results - 50)
             @ '' more results''
        else [])"

text \<open>
  \<^verbatim>\<open>handle_call_tool(name, arguments)\<close>: the result is the text of the one
  \<^verbatim>\<open>TextContent\<close> returned, or the exception raised (which the handler logs and
  raises again). \<open>arguments\<close> is \<^verbatim>\<open>None\<close> or a dict of strings; \<^verbatim>\<open>arguments.get\<close>
  raises on \<^verbatim>\<open>None\<close>. \<open>with_spec\<close> is the part the four tools on a specification
  share: read \<^verbatim>\<open>spec_name\<close>, fetch, then go on with the document.
\<close>

definition with_spec ::
  "network \<Rightarrow> parser \<Rightarrow> server_state \<Rightarrow> (string \<times> string) list option
   \<Rightarrow> ((string \<times> string) list \<Rightarrow> pyval \<Rightarrow> pyerr + string) \<Rightarrow> (pyerr + string) \<times> server_state" where
  "with_spec requests_get yaml_safe_load st arguments body =
     (case arguments of
        None \<Rightarrow> (Inl AttributeError, st)
      | Some args \<Rightarrow>
         (case fetch_yaml_spec requests_get yaml_safe_load st (map_of args ''spec_name'') of
            (Inl e, st') \<Rightarrow> (Inl e, st')
          | (Inr spec_data, st') \<Rightarrow> (body args spec_data, st')))"

definition handle_call_tool ::
  "network \<Rightarrow> parser \<Rightarrow> server_state \<Rightarrow> string \<Rightarrow> (string \<times> string) list option
   \<Rightarrow> (pyerr + string) \<times> server_state" where
  "handle_call_tool requests_get yaml_safe_load st name arguments =
     (if name = ''list_toast_specs'' then
        (Inr (json_dumps (PList (map (\<lambda>(spec_name, url).
                 PDict [(''name'', PStr spec_name), (''url'', PStr url)]) TOAST_SPECS))), st)
      else if name = ''get_toast_spec'' then
        with_spec requests_get yaml_safe_load st arguments
          (\<lambda>args spec_data. Inr (json_dumps spec_data))
      else if name = ''get_toast_endpoints'' then
        with_spec requests_get yaml_safe_load st arguments
          (\<lambda>args spec_data.
             case get_toast_endpoints spec_data of
               Inl e \<Rightarrow> Inl e
             | Inr endpoints \<Rightarrow> Inr (json_dumps (PList endpoints)))
      else if name = ''get_toast_endpoint_details'' then
        with_spec requests_get yaml_safe_load st arguments
          (\<lambda>args spec_data.
             case get_toast_endpoint_details (map_of args ''spec_name'')
                    (map_of args ''endpoint_path'') spec_data of
               Inl e \<Rightarrow> Inl e
             | Inr endpoint_data \<Rightarrow> Inr (json_dumps endpoint_data))
      else if name = ''search_toast_spec'' then
        with_spec requests_get yaml_safe_load st arguments
          (\<lambda>args spec_data.
             Inr (search_text (run_search
                    (case map_of args ''search_term'' of None \<Rightarrow> [] | Some t \<Rightarrow> t)
                    spec_data)))
      else (Inl (ValueError (''Unknown tool: '' @ name)), st))"

text \<open>The states the process can be in: the initial one, and those after any tool call.\<close>

inductive reachable :: "network \<Rightarrow> parser \<Rightarrow> server_state \<Rightarrow> bool"
  for requests_get :: network and yaml_safe_load :: parser where
  reachable_init: "reachable requests_get yaml_safe_load initial_state"
| reachable_call:
    "reachable requests_get yaml_safe_load st \<Longrightarrow>
     reachable requests_get yaml_safe_load
       (snd (handle_call_tool requests_get yaml_safe_load st name arguments))"

section \<open>Example documents\<close>

text \<open>\<^verbatim>\<open>{"a": {"foo": 1}, "b": ["nofoo", "bar"]}\<close>\<close>

definition search_example :: pyval where
  "search_example =
     PDict [(''a'', PDict [(''foo'', PInt 1)]), (''b'', PList [PStr ''nofoo'', PStr ''bar''])]"

text \<open>\<^verbatim>\<open>{"paths": {"/v2/reports": {"get": {"summary": "S"}, "parameters": ["x"]}}}\<close>\<close>

definition reports_example :: pyval where
  "reports_example =
     PDict [(''paths'',
       PDict [(''/v2/reports'',
         PDict [(''get'', PDict [(''summary'', PStr ''S'')]),
                (''parameters'', PList [PStr ''x''])])])]"

text \<open>A list of 73 strings, each a hit for \<^verbatim>\<open>x\<close>.\<close>

definition many_hits_example :: pyval where
  "many_hits_example = PList (replicate 73 (PStr ''x''))"

text \<open>
  A network that serves the same one-line document for every URL, a network that is
  down, and a parser that knows that document.
\<close>

definition example_network :: network where
  "example_network history url = Inr ''paths: {}''"

definition dead_network :: network where
  "dead_network history url = Inl ''timed out''"

definition example_parser :: parser where
  "example_parser raw =
     (if raw = ''paths: {}'' then Inr (PDict [(''paths'', PDict [])]) else Inl ''syntax error'')"

text \<open>
  A network that serves the one word \<^verbatim>\<open>hello\<close>, one that serves the empty document,
  and a parser for these two: the empty document is \<^verbatim>\<open>None\<close>, a plain word is a
  string.
\<close>

definition hello_network :: network where
  "hello_network history url = Inr ''hello''"

definition empty_network :: network where
  "empty_network history url = Inr []"

definition scalar_parser :: parser where
  "scalar_parser raw = (if raw = [] then Inr PNone else Inr (PStr raw))"

section \<open>Properties of the search\<close>

text \<open>
  Claim C1, as stated, fails. The search for \<^verbatim>\<open>foo\<close> in
  \<^verbatim>\<open>{"a": {"foo": 1}, "b": ["nofoo", "bar"]}\<close> does emit a hit at locator \<^verbatim>\<open>a\<close>:
  the test is on \<^verbatim>\<open>str(value)\<close>, and the text of the dict \<^verbatim>\<open>{'foo': 1}\<close> holds
  \<^verbatim>\<open>foo\<close>. So the result is not the two hits at \<^verbatim>\<open>a.foo\<close> and \<^verbatim>\<open>b[0]\<close>
  alone.
\<close>

theorem search_example_counterexample:
  "dict_hit ''a'' ''a'' (PDict [(''foo'', PInt 1)]) \<in> set (run_search ''foo'' search_example)
   \<and> run_search ''foo'' search_example
       \<noteq> [dict_hit ''a.foo'' ''foo'' (PInt 1), list_hit ''b[0]'' (PStr ''nofoo'')]"
  unfolding search_example_def by code_simp

text \<open>
  Claim C1, amended: the search for \<^verbatim>\<open>foo\<close> in that document yields exactly four
  hits, in this order: at \<^verbatim>\<open>a\<close> (key \<^verbatim>\<open>a\<close>, shown as the placeholder
  \<^verbatim>\<open><dict>\<close>; the text of its value holds the term), at \<^verbatim>\<open>a.foo\<close> (the key
  matches), at \<^verbatim>\<open>b\<close> (key \<^verbatim>\<open>b\<close>, shown as \<^verbatim>\<open><list>\<close>; the text of the list
  holds the term) and at \<^verbatim>\<open>b[0]\<close> (the value \<^verbatim>\<open>nofoo\<close> holds the term). The
  placeholder replaces a composite value in the hit, not in the test.
\<close>

theorem search_example_hits:
  "run_search ''foo'' search_example =
     [PDict [(''path'', PStr ''a''), (''key'', PStr ''a''), (''value'', PStr ''<dict>'')],
      PDict [(''path'', PStr ''a.foo''), (''key'', PStr ''foo''), (''value'', PInt 1)],
      PDict [(''path'', PStr ''b''), (''key'', PStr ''b''), (''value'', PStr ''<list>'')],
      PDict [(''path'', PStr ''b[0]''), (''value'', PStr ''nofoo'')]]"
  unfolding search_example_def by code_simp

text \<open>
  Claim C7. The text of \<^verbatim>\<open>search_toast_spec\<close> holds at most the first fifty hits:
  with fifty hits or fewer it is the JSON of all of them and nothing else; with more, it
  is the JSON of the first fifty, in order, followed by the note that says how many more
  there are. The tool applies it to the full result of the search.
\<close>

theorem search_text_truncated:
  "(length hits \<le> 50 \<longrightarrow> search_text hits = json_dumps (PList hits))
   \<and> (50 < length hits \<longrightarrow>
        search_text hits = json_dumps (PList (take 50 hits)) @ [CHR 0x0A, CHR 0x0A]
          @ ''... and '' @ str_nat (length hits - 50) @ '' more results'')
   \<and> (fetch_yaml_spec requests_get yaml_safe_load st (map_of args ''spec_name'') = (Inr tree, st')
        \<and> map_of args ''search_term'' = Some search_term \<longrightarrow>
        handle_call_tool requests_get yaml_safe_load st ''search_toast_spec'' (Some args)
          = (Inr (search_text (run_search search_term tree)), st'))"
  by (simp add: search_text_def handle_call_tool_def with_spec_def)

theorem search_text_truncated_witness:
  "length (run_search ''foo'' search_example) = 4
   \<and> search_text (run_search ''foo'' search_example)
       = json_dumps (PList (run_search ''foo'' search_example))
   \<and> length (run_search ''x'' many_hits_example) = 73
   \<and> search_text (run_search ''x'' many_hits_example)
       = json_dumps (PList (take 50 (run_search ''x'' many_hits_example)))
         @ [CHR 0x0A, CHR 0x0A] @ ''... and 23 more results''"
proof -
  have few: "length (run_search ''foo'' search_example) = 4"
    unfolding search_example_def by code_simp
  have many: "length (run_search ''x'' many_hits_example) = 73"
    unfolding many_hits_example_def by code_simp
  have rest: "str_nat (73 - 50) = ''23''" by code_simp
  from search_text_truncated [of "run_search ''foo'' search_example"] few
  have 1: "search_text (run_search ''foo'' search_example)
       = json_dumps (PList (run_search ''foo'' search_example))" by simp
  from search_text_truncated [of "run_search ''x'' many_hits_example"] many rest
  have 2: "search_text (run_search ''x'' many_hits_example)
       = json_dumps (PList (take 50 (run_search ''x'' many_hits_example)))
         @ [CHR 0x0A, CHR 0x0A] @ ''... and 23 more results''" by simp
  from few many 1 2 show ?thesis by blast
qed

section \<open>Properties of the fetch\<close>

text \<open>The five ways a call of \<open>fetch_yaml_spec\<close> can go.\<close>

lemma fetch_yaml_spec_cases:
  obtains
    (hit) n cached where "spec_name = Some n" "specs_cache st n = Some cached"
      "fetch_yaml_spec net yl st spec_name = (Inr cached, st)"
  | (unknown) "Option.bind spec_name (specs_cache st) = None"
      "Option.bind spec_name (map_of TOAST_SPECS) = None"
      "fetch_yaml_spec net yl st spec_name = (Inl (unknown_spec spec_name), st)"
  | (fetch_failed) n url e where "spec_name = Some n" "specs_cache st n = None"
      "map_of TOAST_SPECS n = Some url" "net (effects st) url = Inl e"
      "fetch_yaml_spec net yl st spec_name =
         (Inl (Exception (''Failed to fetch spec from '' @ url @ '': '' @ e)),
          st\<lparr>effects := effects st @ [HttpGet url]\<rparr>)"
  | (parse_failed) n url raw e where "spec_name = Some n" "specs_cache st n = None"
      "map_of TOAST_SPECS n = Some url" "net (effects st) url = Inr raw" "yl raw = Inl e"
      "fetch_yaml_spec net yl st spec_name =
         (Inl (Exception (''Failed to parse YAML from '' @ url @ '': '' @ e)),
          st\<lparr>effects := effects st @ [HttpGet url, YamlLoad raw]\<rparr>)"
  | (stored) n url raw spec_data where "spec_name = Some n" "specs_cache st n = None"
      "map_of TOAST_SPECS n = Some url" "net (effects st) url = Inr raw"
      "yl raw = Inr spec_data"
      "fetch_yaml_spec net yl st spec_name =
         (Inr spec_data,
          st\<lparr>specs_cache := (specs_cache st)(n \<mapsto> spec_data),
             effects := effects st @ [HttpGet url, YamlLoad raw]\<rparr>)"
proof (cases spec_name)
  case None
  then show ?thesis using unknown by (simp add: fetch_yaml_spec_def)
next
  case (Some n)
  show ?thesis
  proof (cases "specs_cache st n")
    case (Some cached)
    with \<open>spec_name = Some n\<close> show ?thesis using hit by (simp add: fetch_yaml_spec_def)
  next
    case None
    note miss = this
    show ?thesis
    proof (cases "map_of TOAST_SPECS n")
      case None
      with miss \<open>spec_name = Some n\<close> show ?thesis
        using unknown by (simp add: fetch_yaml_spec_def)
    next
      case (Some url)
      note known = this
      show ?thesis
      proof (cases "net (effects st) url")
        case (Inl e)
        with miss known \<open>spec_name = Some n\<close> show ?thesis
          using fetch_failed [of n url e] by (simp add: fetch_yaml_spec_def)
      next
        case (Inr raw)
        note got = this
        show ?thesis
        proof (cases "yl raw")
          case (Inl e)
          with miss known got \<open>spec_name = Some n\<close> show ?thesis
            using parse_failed [of n url raw e] by (simp add: fetch_yaml_spec_def)
        next
          case (Inr spec_data)
          with miss known got \<open>spec_name = Some n\<close> show ?thesis
            using stored [of n url raw spec_data] by (simp add: fetch_yaml_spec_def)
        qed
      qed
    qed
  qed
qed

lemma fetch_hit_again:
  assumes "fetch_yaml_spec net yl st (Some n) = (Inr tree, st')"
  shows "fetch_yaml_spec net' yl' st' (Some n) = (Inr tree, st')"
proof (cases rule: fetch_yaml_spec_cases [of "Some n" st net yl])
  case (hit m cached)
  with assms show ?thesis by (simp add: fetch_yaml_spec_def)
next
  case (stored m url raw spec_data)
  with assms show ?thesis by (auto simp add: fetch_yaml_spec_def)
qed (use assms in auto)

lemma sublist_join: "k \<in> set ks \<Longrightarrow> sublist k (join sep ks)"
proof (induction sep ks rule: join.induct)
  case (3 sep x y ys)
  show ?case
  proof (cases "k = x")
    case True
    then show ?thesis by simp
  next
    case False
    with 3 have "sublist k (join sep (y # ys))" by simp
    then show ?thesis by (simp add: sublist_append)
  qed
qed simp_all

lemma map_of_catalog_None: "n \<notin> set catalog_keys \<Longrightarrow> map_of TOAST_SPECS n = None"
  by (simp add: map_of_eq_None_iff catalog_keys_def)

lemma map_of_catalog_Some: "map_of TOAST_SPECS n = Some url \<Longrightarrow> n \<in> set catalog_keys"
  unfolding catalog_keys_def by (auto dest: map_of_SomeD intro: rev_image_eqI)

lemma snd_fetch_cache:
  "specs_cache (snd (fetch_yaml_spec net yl st spec_name)) = specs_cache st
   \<or> (\<exists>n tree. spec_name = Some n \<and> n \<in> set catalog_keys
         \<and> fst (fetch_yaml_spec net yl st spec_name) = Inr tree
         \<and> specs_cache (snd (fetch_yaml_spec net yl st spec_name)) = (specs_cache st)(n \<mapsto> tree))"
proof (cases rule: fetch_yaml_spec_cases [of spec_name st net yl])
  case (stored n url raw spec_data)
  then show ?thesis by (simp add: map_of_catalog_Some)
qed simp_all

lemma snd_with_spec:
  "snd (with_spec net yl st arguments body) =
     (case arguments of None \<Rightarrow> st
      | Some args \<Rightarrow> snd (fetch_yaml_spec net yl st (map_of args ''spec_name'')))"
  by (simp add: with_spec_def split: option.splits prod.splits sum.splits)

lemma snd_handle_call_tool:
  "snd (handle_call_tool net yl st name arguments) = st
   \<or> (\<exists>args. arguments = Some args
        \<and> snd (handle_call_tool net yl st name arguments)
            = snd (fetch_yaml_spec net yl st (map_of args ''spec_name'')))"
  by (cases arguments) (simp_all add: handle_call_tool_def snd_with_spec)

lemma handle_call_tool_cache:
  "specs_cache (snd (handle_call_tool net yl st name arguments)) = specs_cache st
   \<or> (\<exists>args n tree. arguments = Some args \<and> map_of args ''spec_name'' = Some n
         \<and> n \<in> set catalog_keys
         \<and> fetch_yaml_spec net yl st (Some n)
             = (Inr tree, snd (handle_call_tool net yl st name arguments))
         \<and> specs_cache (snd (handle_call_tool net yl st name arguments))
             = (specs_cache st)(n \<mapsto> tree))"
proof -
  consider "snd (handle_call_tool net yl st name arguments) = st"
    | args where "arguments = Some args"
        "snd (handle_call_tool net yl st name arguments)
           = snd (fetch_yaml_spec net yl st (map_of args ''spec_name''))"
    using snd_handle_call_tool [of net yl st name arguments] by blast
  then show ?thesis
  proof cases
    case 1
    then show ?thesis by simp
  next
    case 2
    from snd_fetch_cache [of net yl st "map_of args ''spec_name''"] show ?thesis
    proof
      assume "specs_cache (snd (fetch_yaml_spec net yl st (map_of args ''spec_name''))) = specs_cache st"
      with 2 show ?thesis by simp
    next
      assume "\<exists>n tree. map_of args ''spec_name'' = Some n \<and> n \<in> set catalog_keys
         \<and> fst (fetch_yaml_spec net yl st (map_of args ''spec_name'')) = Inr tree
         \<and> specs_cache (snd (fetch_yaml_spec net yl st (map_of args ''spec_name'')))
             = (specs_cache st)(n \<mapsto> tree)"
      then obtain n tree where n: "map_of args ''spec_name'' = Some n"
        "n \<in> set catalog_keys"
        "fst (fetch_yaml_spec net yl st (Some n)) = Inr tree"
        "specs_cache (snd (fetch_yaml_spec net yl st (Some n))) = (specs_cache st)(n \<mapsto> tree)"
        by auto
      from n(3) 2 n(1) have "fetch_yaml_spec net yl st (Some n)
             = (Inr tree, snd (handle_call_tool net yl st name arguments))"
        by (simp add: prod_eq_iff)
      with 2 n show ?thesis by simp
    qed
  qed
qed

lemma handle_call_tool_keeps_catalog:
  assumes "dom (specs_cache st) \<subseteq> set catalog_keys"
  shows "dom (specs_cache (snd (handle_call_tool net yl st name arguments)))
           \<subseteq> set catalog_keys"
  using handle_call_tool_cache [of net yl st name arguments] assms
  by (elim disjE exE conjE) simp_all

lemma reachable_catalog:
  "reachable net yl st \<Longrightarrow> dom (specs_cache st) \<subseteq> set catalog_keys"
proof (induction rule: reachable.induct)
  case reachable_init
  show ?case by (simp add: initial_state_def)
next
  case (reachable_call st name arguments)
  from reachable_call.IH show ?case by (rule handle_call_tool_keeps_catalog)
qed

text \<open>
  Claim C2. For an identifier of the catalog, when a call of \<open>fetch_yaml_spec\<close>
  returns a tree, the next call for the same identifier returns the same tree and leaves
  the state as it is: nothing is added to the trace of requests and parses, whatever the
  network and the parser would answer by then. (A first call that raises returns no
  tree; claim C4 is about it.)
\<close>

theorem fetch_twice:
  assumes "spec_name \<in> set catalog_keys"
    and "fetch_yaml_spec requests_get yaml_safe_load st (Some spec_name) = (Inr tree, st')"
  shows "fetch_yaml_spec requests_get' yaml_safe_load' st' (Some spec_name) = (Inr tree, st')
         \<and> effects (snd (fetch_yaml_spec requests_get' yaml_safe_load' st' (Some spec_name)))
             = effects st'"
  using fetch_hit_again [OF assms(2)] by simp

theorem fetch_twice_witness:
  "''orders'' \<in> set catalog_keys
   \<and> fetch_yaml_spec example_network example_parser initial_state (Some ''orders'')
       = (Inr (PDict [(''paths'', PDict [])]),
          \<lparr>specs_cache = [''orders'' \<mapsto> PDict [(''paths'', PDict [])]],
           effects = [HttpGet ''https://doc.toasttab.com/toast-api-specifications/toast-orders-api.yaml'',
                      YamlLoad ''paths: {}'']\<rparr>)
   \<and> fetch_yaml_spec dead_network example_parser
         \<lparr>specs_cache = [''orders'' \<mapsto> PDict [(''paths'', PDict [])]],
          effects = [HttpGet ''https://doc.toasttab.com/toast-api-specifications/toast-orders-api.yaml'',
                     YamlLoad ''paths: {}'']\<rparr> (Some ''orders'')
       = (Inr (PDict [(''paths'', PDict [])]),
          \<lparr>specs_cache = [''orders'' \<mapsto> PDict [(''paths'', PDict [])]],
           effects = [HttpGet ''https://doc.toasttab.com/toast-api-specifications/toast-orders-api.yaml'',
                      YamlLoad ''paths: {}'']\<rparr>)"
proof -
  have known: "''orders'' \<in> set catalog_keys"
    by (simp add: TOAST_SPECS_def catalog_keys_def)
  have first: "fetch_yaml_spec example_network example_parser initial_state (Some ''orders'')
       = (Inr (PDict [(''paths'', PDict [])]),
          \<lparr>specs_cache = [''orders'' \<mapsto> PDict [(''paths'', PDict [])]],
           effects = [HttpGet ''https://doc.toasttab.com/toast-api-specifications/toast-orders-api.yaml'',
                      YamlLoad ''paths: {}'']\<rparr>)"
    by (simp add: fetch_yaml_spec_def initial_state_def TOAST_SPECS_def example_network_def
        example_parser_def)
  from known first fetch_twice [OF known first, of dead_network example_parser]
  show ?thesis by simp
qed

text \<open>
  Claim C3. For an identifier that is not a key of the catalog and is not cached,
  \<open>fetch_yaml_spec\<close> raises the \<^verbatim>\<open>ValueError\<close> whose message names the identifier
  asked for and lists the keys of the catalog: every key occurs in the list. The state
  is unchanged.
\<close>

theorem fetch_unknown:
  assumes "spec_name \<notin> set catalog_keys"
    and "specs_cache st spec_name = None"
  shows "fetch_yaml_spec requests_get yaml_safe_load st (Some spec_name)
           = (Inl (ValueError (''Unknown spec: '' @ spec_name @ ''. Available specs: ''
                               @ join '', '' catalog_keys)), st)
         \<and> (\<forall>k \<in> set catalog_keys. sublist k (join '', '' catalog_keys))"
  using assms
  by (simp add: fetch_yaml_spec_def map_of_catalog_None unknown_spec_def fmt_def sublist_join)

theorem fetch_unknown_witness:
  "''payments'' \<notin> set catalog_keys
   \<and> specs_cache initial_state ''payments'' = None
   \<and> fetch_yaml_spec example_network example_parser initial_state (Some ''payments'')
       = (Inl (ValueError (''Unknown spec: payments. Available specs: reporting, ''
            @ ''authentication, cashmgmt, config, ccpartner, kitchen, labor, menus, menus-v3, ''
            @ ''ordermgmt-config, orders, packaging, partners, rx-availability, restaurants, ''
            @ ''stock, giftcard-integration, loyalty-integration, tender-integration'')),
          initial_state)
   \<and> sublist ''tender-integration'' (join '', '' catalog_keys)"
proof -
  have unknown: "''payments'' \<notin> set catalog_keys"
    by (simp add: TOAST_SPECS_def catalog_keys_def)
  have fresh: "specs_cache initial_state ''payments'' = None"
    by (simp add: initial_state_def)
  have last: "''tender-integration'' \<in> set catalog_keys"
    by (simp add: TOAST_SPECS_def catalog_keys_def)
  have msg: "''Unknown spec: '' @ ''payments'' @ ''. Available specs: ''
               @ join '', '' catalog_keys
       = ''Unknown spec: payments. Available specs: reporting, ''
            @ ''authentication, cashmgmt, config, ccpartner, kitchen, labor, menus, menus-v3, ''
            @ ''ordermgmt-config, orders, packaging, partners, rx-availability, restaurants, ''
            @ ''stock, giftcard-integration, loyalty-integration, tender-integration''"
    by (simp add: TOAST_SPECS_def catalog_keys_def)
  from fetch_unknown [OF unknown fresh, of example_network example_parser] last
  have "fetch_yaml_spec example_network example_parser initial_state (Some ''payments'')
           = (Inl (ValueError (''Unknown spec: '' @ ''payments'' @ ''. Available specs: ''
                               @ join '', '' catalog_keys)), initial_state)"
    and "sublist ''tender-integration'' (join '', '' catalog_keys)"
    by blast+
  with unknown fresh msg show ?thesis by simp
qed

text \<open>
  Claim C4. A call of \<open>fetch_yaml_spec\<close> that raises leaves the cache as it was, with
  no entry for the identifier. What it raises is the unknown-identifier error, the
  failed-request error or the failed-parse error. When the identifier is in the catalog,
  the next call for it requests its URL again.
\<close>

theorem failed_fetch_leaves_cache:
  assumes "fetch_yaml_spec requests_get yaml_safe_load st (Some spec_name) = (Inl e, st')"
  shows "specs_cache st' = specs_cache st
         \<and> specs_cache st' spec_name = None
         \<and> (e = unknown_spec (Some spec_name)
            \<or> (\<exists>url reason. e = Exception (''Failed to fetch spec from '' @ url @ '': '' @ reason))
            \<or> (\<exists>url reason. e = Exception (''Failed to parse YAML from '' @ url @ '': '' @ reason)))
         \<and> (\<forall>url. map_of TOAST_SPECS spec_name = Some url \<longrightarrow>
               prefix (effects st' @ [HttpGet url])
                 (effects (snd (fetch_yaml_spec requests_get' yaml_safe_load' st' (Some spec_name)))))"
proof (cases rule: fetch_yaml_spec_cases [of "Some spec_name" st requests_get yaml_safe_load])
  case (hit n cached)
  with assms show ?thesis by simp
next
  case unknown
  with assms show ?thesis by auto
next
  case (fetch_failed n url r)
  with assms have st': "st' = st\<lparr>effects := effects st @ [HttpGet url]\<rparr>"
    and e: "e = Exception (''Failed to fetch spec from '' @ url @ '': '' @ r)"
    and n: "n = spec_name" by simp_all
  have "prefix (effects st' @ [HttpGet url])
          (effects (snd (fetch_yaml_spec requests_get' yaml_safe_load' st' (Some spec_name))))"
    using fetch_failed(2,3) n
    by (simp add: fetch_yaml_spec_def st' split: sum.splits)
  with fetch_failed(2,3) n e show ?thesis by (auto simp: st')
next
  case (parse_failed n url raw r)
  with assms have st': "st' = st\<lparr>effects := effects st @ [HttpGet url, YamlLoad raw]\<rparr>"
    and e: "e = Exception (''Failed to parse YAML from '' @ url @ '': '' @ r)"
    and n: "n = spec_name" by simp_all
  have "prefix (effects st' @ [HttpGet url])
          (effects (snd (fetch_yaml_spec requests_get' yaml_safe_load' st' (Some spec_name))))"
    using parse_failed(2,3) n
    by (simp add: fetch_yaml_spec_def st' split: sum.splits)
  with parse_failed(2,3) n e show ?thesis by (auto simp: st')
next
  case (stored n url raw spec_data)
  with assms show ?thesis by simp
qed

theorem failed_fetch_leaves_cache_witness:
  "fetch_yaml_spec dead_network example_parser initial_state (Some ''orders'')
     = (Inl (Exception (''Failed to fetch spec from ''
              @ ''https://doc.toasttab.com/toast-api-specifications/toast-orders-api.yaml''
              @ '': timed out'')),
        \<lparr>specs_cache = Map.empty,
         effects = [HttpGet ''https://doc.toasttab.com/toast-api-specifications/toast-orders-api.yaml'']\<rparr>)
   \<and> specs_cache \<lparr>specs_cache = Map.empty,
         effects = [HttpGet ''https://doc.toasttab.com/toast-api-specifications/toast-orders-api.yaml'']\<rparr>
       = specs_cache initial_state
   \<and> prefix [HttpGet ''https://doc.toasttab.com/toast-api-specifications/toast-orders-api.yaml'',
              HttpGet ''https://doc.toasttab.com/toast-api-specifications/toast-orders-api.yaml'']
        (effects (snd (fetch_yaml_spec example_network example_parser
           \<lparr>specs_cache = Map.empty,
            effects = [HttpGet ''https://doc.toasttab.com/toast-api-specifications/toast-orders-api.yaml'']\<rparr>
           (Some ''orders''))))"
proof -
  have failed: "fetch_yaml_spec dead_network example_parser initial_state (Some ''orders'')
     = (Inl (Exception (''Failed to fetch spec from ''
              @ ''https://doc.toasttab.com/toast-api-specifications/toast-orders-api.yaml''
              @ '': timed out'')),
        \<lparr>specs_cache = Map.empty,
         effects = [HttpGet ''https://doc.toasttab.com/toast-api-specifications/toast-orders-api.yaml'']\<rparr>)"
    by (simp add: fetch_yaml_spec_def initial_state_def TOAST_SPECS_def dead_network_def)
  have url: "map_of TOAST_SPECS ''orders''
     = Some ''https://doc.toasttab.com/toast-api-specifications/toast-orders-api.yaml''"
    by (simp add: TOAST_SPECS_def catalog_keys_def)
  from failed_fetch_leaves_cache [OF failed, of example_network example_parser] url failed
  show ?thesis by (simp add: initial_state_def)
qed

text \<open>
  Claim C9. In every state the process can reach, each key of the cache is a key of the
  catalog, and a tool call keeps it so. A tool call either leaves the cache as it is, or
  its fetch of an identifier of the catalog has returned a tree, and the cache has gained
  exactly that entry.
\<close>

theorem cache_keys_in_catalog:
  assumes "reachable requests_get yaml_safe_load st"
  shows "dom (specs_cache st) \<subseteq> set catalog_keys
     \<and> dom (specs_cache (snd (handle_call_tool requests_get yaml_safe_load st name arguments)))
         \<subseteq> set catalog_keys
     \<and> (specs_cache (snd (handle_call_tool requests_get yaml_safe_load st name arguments))
          = specs_cache st
        \<or> (\<exists>args n tree. arguments = Some args \<and> map_of args ''spec_name'' = Some n
             \<and> n \<in> set catalog_keys
             \<and> fetch_yaml_spec requests_get yaml_safe_load st (Some n)
                 = (Inr tree, snd (handle_call_tool requests_get yaml_safe_load st name arguments))
             \<and> specs_cache (snd (handle_call_tool requests_get yaml_safe_load st name arguments))
                 = (specs_cache st)(n \<mapsto> tree)))"
  using reachable_catalog [OF assms] handle_call_tool_keeps_catalog [OF reachable_catalog [OF assms]]
    handle_call_tool_cache
  by blast

theorem cache_keys_in_catalog_witness:
  "reachable example_network example_parser
     (snd (handle_call_tool example_network example_parser initial_state ''get_toast_spec''
            (Some [(''spec_name'', ''orders'')])))
   \<and> specs_cache (snd (handle_call_tool example_network example_parser initial_state
                         ''get_toast_spec'' (Some [(''spec_name'', ''orders'')])))
       = [''orders'' \<mapsto> PDict [(''paths'', PDict [])]]
   \<and> dom (specs_cache (snd (handle_call_tool example_network example_parser initial_state
                              ''get_toast_spec'' (Some [(''spec_name'', ''orders'')]))))
       \<subseteq> set catalog_keys"
proof -
  have step: "reachable example_network example_parser
     (snd (handle_call_tool example_network example_parser initial_state ''get_toast_spec''
            (Some [(''spec_name'', ''orders'')])))"
    by (intro reachable.intros)
  have cache: "specs_cache (snd (handle_call_tool example_network example_parser initial_state
                         ''get_toast_spec'' (Some [(''spec_name'', ''orders'')])))
       = [''orders'' \<mapsto> PDict [(''paths'', PDict [])]]"
    by (simp add: handle_call_tool_def with_spec_def fetch_yaml_spec_def initial_state_def
        TOAST_SPECS_def example_network_def example_parser_def)
  from cache_keys_in_catalog [OF step] step cache show ?thesis by simp
qed

section \<open>Properties of the endpoint tools\<close>

lemma methods_loop_listed: "methods_loop path ms = listed_methods path (PDict ms)"
  by (induction ms) (auto simp: listed_methods_def endpoint_view_def dict_get_def split: pyval.splits)

lemma paths_loop_listed:
  "list_all (\<lambda>(path, methods). is_dict methods) ps \<Longrightarrow>
   paths_loop ps = Inr (concat (map (\<lambda>(path, methods). listed_methods path methods) ps))"
proof (induction ps)
  case Nil
  show ?case by simp
next
  case (Cons p ps)
  obtain path methods where p: "p = (path, methods)" by (cases p)
  with Cons.prems obtain ms where ms: "methods = PDict ms" by (cases methods) simp_all
  from Cons p ms show ?case by (simp add: methods_loop_listed)
qed

lemma py_in_dict: "py_in (Some k) (PDict kvs) = Inr (map_of kvs k \<noteq> None)"
  by (simp add: map_of_eq_None_iff)

text \<open>
  Claim C5. \<^verbatim>\<open>get_toast_endpoints\<close> on a document whose root mapping has no
  \<^verbatim>\<open>paths\<close> key returns the empty list. When \<^verbatim>\<open>paths\<close> is a mapping of paths to
  mappings, it returns, path by path and in document order, one \<open>endpoint_view\<close> for
  each entry whose value is a mapping, and skips the others. On
  \<^verbatim>\<open>{"paths": {"/v2/reports": {"get": {"summary": "S"}, "parameters": ["x"]}}}\<close> the
  result is the one endpoint with path \<^verbatim>\<open>/v2/reports\<close>, method \<^verbatim>\<open>GET\<close>, summary
  \<^verbatim>\<open>S\<close> and the empty description.
\<close>

theorem get_toast_endpoints_tolerant:
  "(map_of root ''paths'' = None \<longrightarrow> get_toast_endpoints (PDict root) = Inr [])
   \<and> (map_of root ''paths'' = Some (PDict ps) \<and> list_all (\<lambda>(path, methods). is_dict methods) ps
        \<longrightarrow> get_toast_endpoints (PDict root)
              = Inr (concat (map (\<lambda>(path, methods). listed_methods path methods) ps)))
   \<and> get_toast_endpoints reports_example
       = Inr [PDict [(''path'', PStr ''/v2/reports''), (''method'', PStr ''GET''),
                     (''summary'', PStr ''S''), (''description'', PStr '''')]]"
proof (intro conjI impI)
  assume "map_of root ''paths'' = None"
  then show "get_toast_endpoints (PDict root) = Inr []"
    by (simp add: get_toast_endpoints_def py_in_dict del: py_in.simps)
next
  assume "map_of root ''paths'' = Some (PDict ps) \<and> list_all (\<lambda>(path, methods). is_dict methods) ps"
  then show "get_toast_endpoints (PDict root)
              = Inr (concat (map (\<lambda>(path, methods). listed_methods path methods) ps))"
    by (simp add: get_toast_endpoints_def py_in_dict paths_loop_listed del: py_in.simps)
next
  show "get_toast_endpoints reports_example
       = Inr [PDict [(''path'', PStr ''/v2/reports''), (''method'', PStr ''GET''),
                     (''summary'', PStr ''S''), (''description'', PStr '''')]]"
    unfolding reports_example_def by code_simp
qed

theorem get_toast_endpoints_tolerant_witness:
  "map_of [(''openapi'', PStr ''3.0.0'')] ''paths'' = None
   \<and> get_toast_endpoints (PDict [(''openapi'', PStr ''3.0.0'')]) = Inr []
   \<and> map_of [(''paths'', PDict [(''/v2/reports'',
         PDict [(''get'', PDict [(''summary'', PStr ''S'')]),
                (''parameters'', PList [PStr ''x''])])])] ''paths''
       = Some (PDict [(''/v2/reports'',
         PDict [(''get'', PDict [(''summary'', PStr ''S'')]),
                (''parameters'', PList [PStr ''x''])])])
   \<and> list_all (\<lambda>(path, methods). is_dict methods) [(''/v2/reports'',
         PDict [(''get'', PDict [(''summary'', PStr ''S'')]),
                (''parameters'', PList [PStr ''x''])])]
   \<and> get_toast_endpoints reports_example
       = Inr [endpoint_view ''/v2/reports'' ''get'' [(''summary'', PStr ''S'')]]"
proof -
  have absent: "map_of [(''openapi'', PStr ''3.0.0'')] ''paths'' = None" by simp
  have present: "map_of [(''paths'', PDict [(''/v2/reports'',
         PDict [(''get'', PDict [(''summary'', PStr ''S'')]),
                (''parameters'', PList [PStr ''x''])])])] ''paths''
       = Some (PDict [(''/v2/reports'',
         PDict [(''get'', PDict [(''summary'', PStr ''S'')]),
                (''parameters'', PList [PStr ''x''])])])
   \<and> list_all (\<lambda>(path, methods). is_dict methods) [(''/v2/reports'',
         PDict [(''get'', PDict [(''summary'', PStr ''S'')]),
                (''parameters'', PList [PStr ''x''])])]" by simp
  from get_toast_endpoints_tolerant [of "[(''openapi'', PStr ''3.0.0'')]"] absent
  have 1: "get_toast_endpoints (PDict [(''openapi'', PStr ''3.0.0'')]) = Inr []" by blast
  from get_toast_endpoints_tolerant [of "[(''paths'', PDict [(''/v2/reports'',
         PDict [(''get'', PDict [(''summary'', PStr ''S'')]),
                (''parameters'', PList [PStr ''x''])])])]" "[(''/v2/reports'',
         PDict [(''get'', PDict [(''summary'', PStr ''S'')]),
                (''parameters'', PList [PStr ''x''])])]"] present
  have 2: "get_toast_endpoints reports_example
       = Inr [endpoint_view ''/v2/reports'' ''get'' [(''summary'', PStr ''S'')]]"
    by (simp add: reports_example_def listed_methods_def)
  from absent present 1 2 show ?thesis by blast
qed

text \<open>
  Claim C6. On a document whose root is a mapping, with \<^verbatim>\<open>paths\<close> absent or a
  mapping, \<^verbatim>\<open>get_toast_endpoint_details\<close> raises the not-found error, whose message
  carries the path and the name of the specification, exactly when \<^verbatim>\<open>paths\<close> is
  absent or the path is not one of its keys; otherwise it returns the value stored at
  that path, as it is.
\<close>

theorem get_toast_endpoint_details_found:
  assumes "map_of root ''paths'' = None \<or> map_of root ''paths'' = Some (PDict ps)"
  shows "(get_toast_endpoint_details spec_name (Some path) (PDict root)
            = Inl (not_found (Some path) spec_name))
           = (map_of root ''paths'' = None \<or> map_of ps path = None)
         \<and> (\<forall>v. map_of root ''paths'' = Some (PDict ps) \<and> map_of ps path = Some v
               \<longrightarrow> get_toast_endpoint_details spec_name (Some path) (PDict root) = Inr v)
         \<and> not_found (Some path) (Some name)
             = ValueError (''Endpoint '' @ path @ '' not found in '' @ name @ '' specification'')"
  using assms
proof
  assume "map_of root ''paths'' = None"
  then show ?thesis
    by (simp add: get_toast_endpoint_details_def py_in_dict not_found_def fmt_def del: py_in.simps)
next
  assume paths: "map_of root ''paths'' = Some (PDict ps)"
  show ?thesis
  proof (cases "map_of ps path")
    case None
    with paths show ?thesis
      by (simp add: get_toast_endpoint_details_def py_in_dict not_found_def fmt_def
          del: py_in.simps)
  next
    case (Some v)
    with paths show ?thesis
      by (simp add: get_toast_endpoint_details_def py_in_dict not_found_def fmt_def
          del: py_in.simps)
  qed
qed

theorem get_toast_endpoint_details_found_witness:
  "map_of [(''paths'', PDict [(''/v2/reports'',
         PDict [(''get'', PDict [(''summary'', PStr ''S'')]),
                (''parameters'', PList [PStr ''x''])])])] ''paths''
       = Some (PDict [(''/v2/reports'',
         PDict [(''get'', PDict [(''summary'', PStr ''S'')]),
                (''parameters'', PList [PStr ''x''])])])
   \<and> get_toast_endpoint_details (Some ''reporting'') (Some ''/v2/reports'') reports_example
       = Inr (PDict [(''get'', PDict [(''summary'', PStr ''S'')]),
                     (''parameters'', PList [PStr ''x''])])
   \<and> get_toast_endpoint_details (Some ''reporting'') (Some ''/missing'') reports_example
       = Inl (ValueError ''Endpoint /missing not found in reporting specification'')"
proof -
  have paths: "map_of [(''paths'', PDict [(''/v2/reports'',
         PDict [(''get'', PDict [(''summary'', PStr ''S'')]),
                (''parameters'', PList [PStr ''x''])])])] ''paths''
       = Some (PDict [(''/v2/reports'',
         PDict [(''get'', PDict [(''summary'', PStr ''S'')]),
                (''parameters'', PList [PStr ''x''])])])" by simp
  note found = get_toast_endpoint_details_found [OF disjI2, OF paths]
  from found [of "Some ''reporting''" "''/v2/reports''"]
  have 1: "get_toast_endpoint_details (Some ''reporting'') (Some ''/v2/reports'') reports_example
       = Inr (PDict [(''get'', PDict [(''summary'', PStr ''S'')]),
                     (''parameters'', PList [PStr ''x''])])"
    by (simp add: reports_example_def)
  from found [of "Some ''reporting''" "''/missing''" "''reporting''"]
  have 2: "get_toast_endpoint_details (Some ''reporting'') (Some ''/missing'') reports_example
       = Inl (ValueError ''Endpoint /missing not found in reporting specification'')"
    by (simp add: reports_example_def)
  from paths 1 2 show ?thesis by blast
qed

text \<open>
  Claim C10, as stated, fails for a root that is a string. The document \<^verbatim>\<open>hello\<close>
  parses to a string, which is fetched and cached; \<^verbatim>\<open>"paths" in spec_data\<close> is then a
  substring test and does not raise. \<^verbatim>\<open>get_toast_endpoints\<close> returns the empty
  list, and \<^verbatim>\<open>get_toast_endpoint_details\<close> raises its not-found error.
\<close>

theorem string_root_counterexample:
  "fetch_yaml_spec hello_network scalar_parser initial_state (Some ''kitchen'')
     = (Inr (PStr ''hello''),
        \<lparr>specs_cache = [''kitchen'' \<mapsto> PStr ''hello''],
         effects = [HttpGet ''https://doc.toasttab.com/openapi/kitchen/overview/'',
                    YamlLoad ''hello'']\<rparr>)
   \<and> \<not> is_dict (PStr ''hello'')
   \<and> py_in (Some ''paths'') (PStr ''hello'') = Inr False
   \<and> get_toast_endpoints (PStr ''hello'') = Inr []
   \<and> fst (handle_call_tool hello_network scalar_parser initial_state ''get_toast_endpoints''
             (Some [(''spec_name'', ''kitchen'')])) = Inr ''[]''
   \<and> get_toast_endpoint_details (Some ''kitchen'') (Some ''/v2'') (PStr ''hello'')
       = Inl (ValueError ''Endpoint /v2 not found in kitchen specification'')"
proof -
  have fetched: "fetch_yaml_spec hello_network scalar_parser initial_state (Some ''kitchen'')
     = (Inr (PStr ''hello''),
        \<lparr>specs_cache = [''kitchen'' \<mapsto> PStr ''hello''],
         effects = [HttpGet ''https://doc.toasttab.com/openapi/kitchen/overview/'',
                    YamlLoad ''hello'']\<rparr>)"
    by (simp add: fetch_yaml_spec_def initial_state_def TOAST_SPECS_def hello_network_def
        scalar_parser_def)
  have pure: "\<not> is_dict (PStr ''hello'')
   \<and> py_in (Some ''paths'') (PStr ''hello'') = Inr False
   \<and> get_toast_endpoints (PStr ''hello'') = Inr []
   \<and> get_toast_endpoint_details (Some ''kitchen'') (Some ''/v2'') (PStr ''hello'')
       = Inl (ValueError ''Endpoint /v2 not found in kitchen specification'')"
    by code_simp
  have empty: "json_dumps (PList []) = ''[]''"
    by (simp add: json_dumps_def)
  from fetched pure empty
  have "fst (handle_call_tool hello_network scalar_parser initial_state ''get_toast_endpoints''
             (Some [(''spec_name'', ''kitchen'')])) = Inr ''[]''"
    by (simp add: handle_call_tool_def with_spec_def)
  with fetched pure show ?thesis by blast
qed

text \<open>
  Claim C10, amended. When the root of the document is \<^verbatim>\<open>None\<close>, a boolean or a
  number, the membership test \<^verbatim>\<open>"paths" in spec_data\<close> raises a type error, and so
  do both endpoint tools. When the root is a string or a list, the test does not raise:
  it is a substring test, or an element test; where it is false, the tools give the
  empty list and the not-found error, and where it is true, the indexing that follows
  raises a type error. A type error in either tool is what the call of the tool raises,
  after the fetch has returned and stored the document.
\<close>

theorem non_mapping_root:
  "(root = PNone \<or> root = PBool b \<or> root = PInt i \<longrightarrow>
      py_in (Some ''paths'') root = Inl TypeError
      \<and> get_toast_endpoints root = Inl TypeError
      \<and> get_toast_endpoint_details spec_name endpoint_path root = Inl TypeError)
   \<and> (root = PStr s \<or> root = PList xs \<longrightarrow>
      py_in (Some ''paths'') root
        = Inr (case root of PStr s \<Rightarrow> sublist ''paths'' s | _ \<Rightarrow> PStr ''paths'' \<in> set xs)
      \<and> get_toast_endpoints root
          = (if py_in (Some ''paths'') root = Inr True then Inl TypeError else Inr [])
      \<and> get_toast_endpoint_details spec_name endpoint_path root
          = (if py_in (Some ''paths'') root = Inr True then Inl TypeError
             else Inl (not_found endpoint_path spec_name)))
   \<and> (fetch_yaml_spec requests_get yaml_safe_load st (map_of args ''spec_name'') = (Inr root, st')
        \<and> get_toast_endpoints root = Inl TypeError \<longrightarrow>
        handle_call_tool requests_get yaml_safe_load st ''get_toast_endpoints'' (Some args)
          = (Inl TypeError, st'))
   \<and> (fetch_yaml_spec requests_get yaml_safe_load st (map_of args ''spec_name'') = (Inr root, st')
        \<and> get_toast_endpoint_details (map_of args ''spec_name'') (map_of args ''endpoint_path'')
              root = Inl TypeError \<longrightarrow>
        handle_call_tool requests_get yaml_safe_load st ''get_toast_endpoint_details'' (Some args)
          = (Inl TypeError, st'))"
  by (auto simp: get_toast_endpoints_def get_toast_endpoint_details_def handle_call_tool_def
      with_spec_def)

theorem non_mapping_root_witness:
  "fetch_yaml_spec empty_network scalar_parser initial_state (Some ''orders'')
     = (Inr PNone,
        \<lparr>specs_cache = [''orders'' \<mapsto> PNone],
         effects = [HttpGet ''https://doc.toasttab.com/toast-api-specifications/toast-orders-api.yaml'',
                    YamlLoad []]\<rparr>)
   \<and> py_in (Some ''paths'') PNone = Inl TypeError
   \<and> handle_call_tool empty_network scalar_parser initial_state ''get_toast_endpoints''
        (Some [(''spec_name'', ''orders'')])
       = (Inl TypeError,
          \<lparr>specs_cache = [''orders'' \<mapsto> PNone],
           effects = [HttpGet ''https://doc.toasttab.com/toast-api-specifications/toast-orders-api.yaml'',
                      YamlLoad []]\<rparr>)
   \<and> handle_call_tool empty_network scalar_parser initial_state ''get_toast_endpoint_details''
        (Some [(''spec_name'', ''orders''), (''endpoint_path'', ''/v2/orders'')])
       = (Inl TypeError,
          \<lparr>specs_cache = [''orders'' \<mapsto> PNone],
           effects = [HttpGet ''https://doc.toasttab.com/toast-api-specifications/toast-orders-api.yaml'',
                      YamlLoad []]\<rparr>)
   \<and> get_toast_endpoints (PStr ''hello'') = Inr []
   \<and> get_toast_endpoints (PList [PStr ''paths'']) = Inl TypeError"
proof -
  have fetched: "fetch_yaml_spec empty_network scalar_parser initial_state (Some ''orders'')
     = (Inr PNone,
        \<lparr>specs_cache = [''orders'' \<mapsto> PNone],
         effects = [HttpGet ''https://doc.toasttab.com/toast-api-specifications/toast-orders-api.yaml'',
                    YamlLoad []]\<rparr>)"
    by (simp add: fetch_yaml_spec_def initial_state_def TOAST_SPECS_def empty_network_def
        scalar_parser_def)
  note null = non_mapping_root [of PNone _ _ _ _ _ _ empty_network scalar_parser initial_state]
  from null have 1: "py_in (Some ''paths'') PNone = Inl TypeError" by blast
  from null [of _ _ _ _ _ _ "[(''spec_name'', ''orders'')]"] fetched
  have 2: "handle_call_tool empty_network scalar_parser initial_state ''get_toast_endpoints''
        (Some [(''spec_name'', ''orders'')])
       = (Inl TypeError,
          \<lparr>specs_cache = [''orders'' \<mapsto> PNone],
           effects = [HttpGet ''https://doc.toasttab.com/toast-api-specifications/toast-orders-api.yaml'',
                      YamlLoad []]\<rparr>)"
    by simp
  from null [of _ _ "Some ''orders''" "Some ''/v2/orders''" _ _
      "[(''spec_name'', ''orders''), (''endpoint_path'', ''/v2/orders'')]"] fetched
  have 3: "handle_call_tool empty_network scalar_parser initial_state ''get_toast_endpoint_details''
        (Some [(''spec_name'', ''orders''), (''endpoint_path'', ''/v2/orders'')])
       = (Inl TypeError,
          \<lparr>specs_cache = [''orders'' \<mapsto> PNone],
           effects = [HttpGet ''https://doc.toasttab.com/toast-api-specifications/toast-orders-api.yaml'',
                      YamlLoad []]\<rparr>)"
    by simp
  have no: "\<not> sublist ''paths'' ''hello''" by code_simp
  from non_mapping_root [of "PStr ''hello''" _ _ _ _ "''hello''"] no
  have 4: "get_toast_endpoints (PStr ''hello'') = Inr []" by simp
  from non_mapping_root [of "PList [PStr ''paths'']" _ _ _ _ _ "[PStr ''paths'']"]
  have 5: "get_toast_endpoints (PList [PStr ''paths'']) = Inl TypeError" by simp
  from fetched 1 2 3 4 5 show ?thesis by blast
qed

section \<open>Properties of the JSON output\<close>



























































end
